theory Spec2Isabelle
  imports Main
begin

section \<open>Python values, strings and paths\<close>

text \<open>
  The exceptions that the modelled code can raise. \<open>TypeError\<close> is what
  \<open>os.makedirs(None)\<close> raises (under Python 2 it is an \<open>AttributeError\<close> from
  \<open>posixpath.split\<close>; either way it is not an \<open>OSError\<close>).
\<close>

datatype error =
    AssertionError
  | AttributeError
  | IOError
  | NameError
  | OSError
  | OverflowError
  | TypeError
  | UnboundLocalError
  | ZeroDivisionError

text \<open>
  A value handed to \<open>threads\<close> or \<open>memory\<close>: \<open>PyInt n\<close> is a value whose type
  is exactly \<open>int\<close>, \<open>PyOther\<close> any value of another type (a float, a string, a
  bool, \<open>None\<close>; under Python 2 also a \<open>long\<close>, that is every integer beyond
  \<open>sys.maxint\<close>).
\<close>

datatype pyval = PyInt int | PyOther

text \<open>
  \<open>float(n)\<close>, and the conversion of the left operand of \<open>n / x\<close> for a float
  \<open>x\<close>, raise \<open>OverflowError\<close> when the integer rounds to a magnitude beyond the
  largest double, \<open>2^1024 - 2^971\<close>: that is from \<open>2^1024 - 2^970\<close> on.
\<close>

definition float_overflows :: "int \<Rightarrow> bool" where
  "float_overflows n = (2 ^ 1024 - 2 ^ 970 \<le> \<bar>n\<bar>)"

definition nl :: string where
  "nl = [CHR 0x0A]"

definition tab :: string where
  "tab = [CHR 0x09]"

definition bslash :: string where
  "bslash = [CHR 0x5C]"

text \<open>\<open>if x:\<close> on an optional string: \<open>None\<close> and the empty string are false.\<close>

fun truthy :: "string option \<Rightarrow> bool" where
  "truthy None = False"
| "truthy (Some s) = (s \<noteq> [])"

text \<open>\<open>sep.join(xs)\<close>.\<close>

fun join_str :: "string \<Rightarrow> string list \<Rightarrow> string" where
  "join_str sep [] = []"
| "join_str sep [x] = x"
| "join_str sep (x # y # ys) = x @ sep @ join_str sep (y # ys)"

text \<open>\<open>s.split(c)\<close> for a one-character separator.\<close>

fun split_on :: "char \<Rightarrow> string \<Rightarrow> string list" where
  "split_on c [] = [[]]"
| "split_on c (x # xs) =
     (if x = c then [] # split_on c xs
      else (case split_on c xs of
              [] \<Rightarrow> [[x]]
            | w # ws \<Rightarrow> (x # w) # ws))"

text \<open>\<open>a in b\<close> on strings: \<open>a\<close> occurs in \<open>b\<close> as a contiguous run.\<close>

fun starts_with :: "string \<Rightarrow> string \<Rightarrow> bool" where
  "starts_with [] s = True"
| "starts_with (p # ps) [] = False"
| "starts_with (p # ps) (c # cs) = (p = c \<and> starts_with ps cs)"

fun str_contains :: "string \<Rightarrow> string \<Rightarrow> bool" where
  "str_contains a [] = (a = [])"
| "str_contains a (c # cs) = (starts_with a (c # cs) \<or> str_contains a cs)"

text \<open>\<open>'{}'.format(n)\<close> for an \<open>int\<close>.\<close>

function str_nat :: "nat \<Rightarrow> string" where
  "str_nat n =
     (if n < 10 then [''0123456789'' ! n]
      else str_nat (n div 10) @ [''0123456789'' ! (n mod 10)])"
  by pat_completeness auto
termination
  by (relation "measure id") auto

definition str_int :: "int \<Rightarrow> string" where
  "str_int i = (if i < 0 then ''-'' @ str_nat (nat (- i)) else str_nat (nat i))"

text \<open>
  \<open>os.path.split\<close> and \<open>os.path.join\<close> of \<open>posixpath\<close>: the split is at the last
  slash, the head loses its trailing slashes unless it consists of slashes only; a
  component that starts with a slash restarts the join.
\<close>

definition is_slash :: "char \<Rightarrow> bool" where
  "is_slash c = (c = CHR ''/'')"

definition os_path_split :: "string \<Rightarrow> string \<times> string" where
  "os_path_split p =
     (let tail = rev (takeWhile (\<lambda>c. \<not> is_slash c) (rev p));
          head = rev (dropWhile (\<lambda>c. \<not> is_slash c) (rev p))
      in if head \<noteq> [] \<and> \<not> list_all is_slash head
         then (rev (dropWhile is_slash (rev head)), tail)
         else (head, tail))"

definition os_path_join :: "string \<Rightarrow> string \<Rightarrow> string" where
  "os_path_join a b =
     (if starts_with ''/'' b then b
      else if a = [] \<or> is_slash (last a) then a @ b
      else a @ ''/'' @ b)"

section \<open>The environment: file system and external collaborators\<close>

text \<open>
  The file system as far as the generator touches it: the text of every file, and the
  directories that exist. Writes are appends (\<open>open(fn, "a")\<close>) except for the
  submission script (\<open>open(fn, "w")\<close>).
\<close>

record fs =
  files :: "string \<rightharpoonup> string"
  dirs :: "string set"

text \<open>
  What the code takes from outside: \<open>os.path.realpath\<close>, the line \<open>_git_info()\<close>
  returns, the name \<open>tempfile.NamedTemporaryFile(delete=False)\<close> picks, and the text
  that \<open>'{}'.format(memory / float(threads))\<close> renders where the quotient exists
  (both integers convert to a float and \<open>threads\<close> is not zero).
\<close>

record env =
  realpath :: "string \<Rightarrow> string"
  git_info :: string
  tmp_name :: string
  float_fmt :: "int \<Rightarrow> int \<Rightarrow> string"

definition path_exists :: "fs \<Rightarrow> string \<Rightarrow> bool" where
  "path_exists s p = (case files s p of Some _ \<Rightarrow> True | None \<Rightarrow> p \<in> dirs s)"

definition append_file :: "string \<Rightarrow> string \<Rightarrow> fs \<Rightarrow> fs" where
  "append_file p t s =
     s\<lparr>files := (files s)(p \<mapsto> (case files s p of None \<Rightarrow> [] | Some old \<Rightarrow> old) @ t)\<rparr>"

definition write_file :: "string \<Rightarrow> string \<Rightarrow> fs \<Rightarrow> fs" where
  "write_file p t s = s\<lparr>files := (files s)(p \<mapsto> t)\<rparr>"

text \<open>
  \<open>os.makedirs\<close>: \<open>None\<close> is not a path; an empty or existing path is an
  \<open>OSError\<close>; otherwise the directory exists afterwards.
\<close>

definition os_makedirs :: "string option \<Rightarrow> fs \<Rightarrow> (error + unit) \<times> fs" where
  "os_makedirs d s =
     (case d of
        None \<Rightarrow> (Inl TypeError, s)
      | Some p \<Rightarrow>
          if p = [] \<or> path_exists s p then (Inl OSError, s)
          else (Inr (), s\<lparr>dirs := insert p (dirs s)\<rparr>))"

text \<open>\<open>os.remove\<close>: only an existing file can be removed.\<close>

definition os_remove :: "string \<Rightarrow> fs \<Rightarrow> (error + unit) \<times> fs" where
  "os_remove p s =
     (case files s p of
        None \<Rightarrow> (Inl OSError, s)
      | Some _ \<Rightarrow> (Inr (), s\<lparr>files := (files s)(p := None)\<rparr>))"

text \<open>\<open>_make_dir\<close> (general.py 17-22): only \<open>OSError\<close> is swallowed.\<close>

definition make_dir :: "string option \<Rightarrow> fs \<Rightarrow> (error + unit) \<times> fs" where
  "make_dir d s =
     (case os_makedirs d s of
        (Inl e, s') \<Rightarrow> if e = OSError then (Inr (), s') else (Inl e, s')
      | (Inr u, s') \<Rightarrow> (Inr u, s'))"

section \<open>JobScript\<close>

record JobScript =
  sample_name :: string
  job_suffix :: string
  jobname :: string
  outdir :: string
  tempdir :: string
  threads :: int
  memory :: int
  linkdir :: string
  queue :: "string option"
  conda_env :: "string option"
  modules :: "string list option"
  out :: string
  err :: string
  wait_for :: "string list option"
  copy_input :: bool
  input_files_to_copy :: "string list"
  output_files_to_copy :: "string list"
  temp_files_to_delete :: "string list"
  softlinks :: "(string \<times> string) list"
  delete_sh :: bool
  links_tracklines :: string
  filename :: string

text \<open>The arguments of \<open>JobScript.__init__\<close>; \<open>init_defaults\<close> holds the defaults
  of the optional ones.\<close>

record init_args =
  arg_sample_name :: string
  arg_job_suffix :: string
  arg_outdir :: string
  arg_threads :: pyval
  arg_memory :: pyval
  arg_linkdir :: "string option"
  arg_webpath :: "string option"
  arg_tempdir :: "string option"
  arg_queue :: "string option"
  arg_conda_env :: "string option"
  arg_modules :: "string option"
  arg_wait_for :: "string list option"
  arg_copy_input :: bool

definition init_defaults :: "string \<Rightarrow> string \<Rightarrow> string \<Rightarrow> pyval \<Rightarrow> pyval \<Rightarrow> init_args" where
  "init_defaults sn suffix od t m =
     \<lparr>arg_sample_name = sn, arg_job_suffix = suffix, arg_outdir = od,
      arg_threads = t, arg_memory = m, arg_linkdir = None, arg_webpath = None,
      arg_tempdir = None, arg_queue = None, arg_conda_env = None,
      arg_modules = None, arg_wait_for = None, arg_copy_input = False\<rparr>"

text \<open>\<open>_set_filename\<close> (general.py 145-157).\<close>

definition set_filename :: "env \<Rightarrow> JobScript \<Rightarrow> fs \<Rightarrow> (error + JobScript) \<times> fs" where
  "set_filename e j s =
     (case make_dir (Some (os_path_join (fst (os_path_split (outdir j))) ''sh'')) s of
        (Inl x, s1) \<Rightarrow> (Inl x, s1)
      | (Inr _, s1) \<Rightarrow>
          (let fn = os_path_join (os_path_join (fst (os_path_split (outdir j))) ''sh'')
                      (jobname j @ ''.sh'')
           in if path_exists s1 fn
              then (Inr (j\<lparr>filename := tmp_name e, delete_sh := True\<rparr>),
                    write_file (tmp_name e) [] s1)
              else (Inr (j\<lparr>filename := fn\<rparr>), s1)))"

text \<open>\<open>_write_header\<close> (general.py 159-180). What was written before an exception
  stays in the file: the \<open>with\<close> block closes it. In \<open>self.memory / float(self.threads)\<close>
  the call \<open>float(self.threads)\<close> comes first, then the division converts
  \<open>self.memory\<close>, and only then is the divisor compared with zero.\<close>

definition header_queue :: "JobScript \<Rightarrow> string" where
  "header_queue j =
     (case queue j of
        None \<Rightarrow> []
      | Some q \<Rightarrow> if q = [] then [] else ''#$ -q '' @ q @ nl)"

definition header_modules :: "JobScript \<Rightarrow> string" where
  "header_modules j =
     (case modules j of
        None \<Rightarrow> []
      | Some ms \<Rightarrow> concat (map (\<lambda>m. ''module load '' @ m @ nl @ nl) ms))"

definition header_conda :: "JobScript \<Rightarrow> string" where
  "header_conda j =
     (if truthy (conda_env j)
      then ''source activate '' @ (case conda_env j of None \<Rightarrow> [] | Some c \<Rightarrow> c) @ nl @ nl
      else [])"

definition header_tempdir :: "JobScript \<Rightarrow> string" where
  "header_tempdir j =
     (if tempdir j \<noteq> []
      then ''mkdir -p '' @ tempdir j @ nl @ ''cd '' @ tempdir j @ nl @ nl
      else [])"

definition header_tail :: "env \<Rightarrow> JobScript \<Rightarrow> string" where
  "header_tail e j =
     ''#$ -l h_vmem='' @ float_fmt e (memory j) (threads j) @ nl @
     ''#$ -pe smp '' @ str_int (threads j) @ nl @
     ''#$ -S /bin/bash'' @ nl @
     ''#$ -o '' @ out j @ nl @
     ''#$ -e '' @ err j @ nl @ nl @
     ''# Git repository version:'' @ nl @ ''# '' @ git_info e @ nl @ nl @
     header_modules j @ header_conda j @ header_tempdir j"

definition write_header :: "env \<Rightarrow> JobScript \<Rightarrow> fs \<Rightarrow> (error + unit) \<times> fs" where
  "write_header e j s =
     (let shebang = ''#!/bin/bash'' @ nl @ nl
      in if truthy (queue j) \<and> queue j \<noteq> Some ''short'' \<and> queue j \<noteq> Some ''long''
         then (Inl AssertionError, append_file (filename j) shebang s)
         else if float_overflows (threads j) \<or> float_overflows (memory j)
         then (Inl OverflowError,
               append_file (filename j)
                 (shebang @ header_queue j @ ''#$ -N '' @ jobname j @ nl) s)
         else if threads j = 0
         then (Inl ZeroDivisionError,
               append_file (filename j)
                 (shebang @ header_queue j @ ''#$ -N '' @ jobname j @ nl) s)
         else (Inr (),
               append_file (filename j)
                 (shebang @ header_queue j @ ''#$ -N '' @ jobname j @ nl @ header_tail e j) s))"

text \<open>\<open>JobScript.__init__\<close> (general.py 25-143). \<open>new_job\<close> is the object as
  the assignments of the constructor leave it, before \<open>_set_filename\<close>.\<close>

definition new_job :: "env \<Rightarrow> init_args \<Rightarrow> int \<Rightarrow> int \<Rightarrow> JobScript" where
  "new_job e a t m =
     (let jn = arg_sample_name a @ ''_'' @ arg_job_suffix a;
          top = fst (os_path_split (arg_outdir a))
      in \<lparr>sample_name = arg_sample_name a,
          job_suffix = arg_job_suffix a,
          jobname = jn,
          outdir = arg_outdir a,
          tempdir = (case arg_tempdir a of
                       None \<Rightarrow> arg_outdir a
                     | Some d \<Rightarrow> if d = [] then arg_outdir a
                                 else realpath e (os_path_join d jn)),
          threads = t,
          memory = m,
          linkdir = (case arg_linkdir a of None \<Rightarrow> [] | Some l \<Rightarrow> l),
          queue = arg_queue a,
          conda_env = arg_conda_env a,
          modules = (case arg_modules a of
                       None \<Rightarrow> None
                     | Some ms \<Rightarrow> if ms = [] then None
                                  else Some (split_on (CHR '','') ms)),
          out = os_path_join (os_path_join top ''logs'') (jn @ ''.out''),
          err = os_path_join (os_path_join top ''logs'') (jn @ ''.err''),
          wait_for = arg_wait_for a,
          copy_input = arg_copy_input a,
          input_files_to_copy = [],
          output_files_to_copy = [],
          temp_files_to_delete = [],
          softlinks = [],
          delete_sh = False,
          links_tracklines = os_path_join (arg_outdir a) ''links_tracklines.txt'',
          filename = []\<rparr>)"

definition JobScript_init :: "env \<Rightarrow> init_args \<Rightarrow> fs \<Rightarrow> (error + JobScript) \<times> fs" where
  "JobScript_init e a s0 =
     (case make_dir (Some (arg_outdir a)) s0 of
        (Inl x, s1) \<Rightarrow> (Inl x, s1)
      | (Inr _, s1) \<Rightarrow>
     (case arg_threads a of
        PyOther \<Rightarrow> (Inl AssertionError, s1)
      | PyInt t \<Rightarrow>
     (case arg_memory a of
        PyOther \<Rightarrow> (Inl AssertionError, s1)
      | PyInt m \<Rightarrow>
     (case make_dir (arg_linkdir a) s1 of
        (Inl x, s2) \<Rightarrow> (Inl x, s2)
      | (Inr _, s2) \<Rightarrow>
     (case make_dir (Some (os_path_join (fst (os_path_split (arg_outdir a))) ''logs'')) s2 of
        (Inl x, s3) \<Rightarrow> (Inl x, s3)
      | (Inr _, s3) \<Rightarrow>
     (case set_filename e (new_job e a t m) s3 of
        (Inl x, s4) \<Rightarrow> (Inl x, s4)
      | (Inr j, s4) \<Rightarrow>
     (case write_header e j s4 of
        (Inl x, s5) \<Rightarrow> (Inl x, s5)
      | (Inr _, s5) \<Rightarrow> (Inr j, s5))))))))"

text \<open>\<open>temp_file_path\<close> (general.py 302-304).\<close>

definition temp_file_path :: "JobScript \<Rightarrow> string \<Rightarrow> string" where
  "temp_file_path j fn = os_path_join (tempdir j) (snd (os_path_split fn))"

text \<open>The two command texts that are built with \<open>format\<close> and \<open>join\<close>:
  \<open>'rsync -avz \\\n\t{} \\\n \t{}\n\n'\<close> over \<open>'\\\n\t'.join(srcs)\<close>, and
  \<open>'rm -r \\\n\t{}\n\n'\<close> over \<open>' \\\n\t'.join(paths)\<close>.\<close>

definition rsync_text :: "string list \<Rightarrow> string \<Rightarrow> string" where
  "rsync_text srcs dest =
     ''rsync -avz '' @ bslash @ nl @ tab @ join_str (bslash @ nl @ tab) srcs @
     '' '' @ bslash @ nl @ '' '' @ tab @ dest @ nl @ nl"

definition rm_text :: "string list \<Rightarrow> string" where
  "rm_text paths =
     ''rm -r '' @ bslash @ nl @ tab @ join_str ('' '' @ bslash @ nl @ tab) paths @ nl @ nl"

text \<open>\<open>_copy_output_files\<close> (general.py 182-188).\<close>

definition copy_output_files :: "env \<Rightarrow> JobScript \<Rightarrow> fs \<Rightarrow> fs" where
  "copy_output_files e j s =
     (if output_files_to_copy j \<noteq> [] \<and> realpath e (tempdir j) \<noteq> realpath e (outdir j)
      then append_file (filename j) (rsync_text (output_files_to_copy j) (outdir j)) s
      else s)"

text \<open>\<open>_delete_temp_files\<close> (general.py 190-200). \<open>self.tempdir\<close> is a string
  after construction, so \<open>self.tempdir is None\<close> is false.\<close>

definition delete_temp_files :: "env \<Rightarrow> JobScript \<Rightarrow> fs \<Rightarrow> JobScript \<times> fs" where
  "delete_temp_files e j s =
     (if temp_files_to_delete j \<noteq> []
      then (let j' = (if realpath e (tempdir j) = realpath e (outdir j)
                      then j\<lparr>temp_files_to_delete :=
                              filter (\<lambda>x. x \<notin> set (output_files_to_copy j)) (temp_files_to_delete j)\<rparr>
                      else j)
            in (j', append_file (filename j') (rm_text (temp_files_to_delete j')) s))
      else (j, s))"

text \<open>\<open>_delete_tempdir\<close> (general.py 202-206).\<close>

definition delete_tempdir :: "env \<Rightarrow> JobScript \<Rightarrow> fs \<Rightarrow> fs" where
  "delete_tempdir e j s =
     (if tempdir j \<noteq> [] \<and> realpath e (tempdir j) \<noteq> realpath e (outdir j)
      then append_file (filename j) (''rm -r '' @ tempdir j @ nl) s
      else s)"

text \<open>\<open>softlink\<close> (general.py 215-236) formats its line and then opens
  \<open>job.filename\<close>. \<open>job\<close> is not a parameter, not a local and not a name of the
  module: looking it up raises \<open>NameError\<close> before anything is written.\<close>

definition softlink :: "JobScript \<Rightarrow> string \<Rightarrow> string \<Rightarrow> fs \<Rightarrow> (error + string) \<times> fs" where
  "softlink j target link s = (Inl NameError, s)"

text \<open>\<open>_make_softlinks\<close> (general.py 208-213): the script is opened for appending,
  then every recorded pair goes through \<open>softlink\<close> and the returned link is written.\<close>

fun make_softlinks_loop :: "JobScript \<Rightarrow> (string \<times> string) list \<Rightarrow> fs \<Rightarrow> (error + unit) \<times> fs" where
  "make_softlinks_loop j [] s = (Inr (), s)"
| "make_softlinks_loop j (p # ps) s =
     (case softlink j (fst p) (snd p) s of
        (Inl x, s') \<Rightarrow> (Inl x, s')
      | (Inr link, s') \<Rightarrow> make_softlinks_loop j ps (append_file (filename j) link s'))"

definition make_softlinks :: "JobScript \<Rightarrow> fs \<Rightarrow> (error + unit) \<times> fs" where
  "make_softlinks j s = make_softlinks_loop j (softlinks j) (append_file (filename j) [] s)"

text \<open>\<open>add_softlink\<close> (general.py 238-268). The first branch reads \<open>sample_name\<close>,
  the second \<open>fn\<close>; neither is a parameter, a local or a name of the module, so either
  branch raises \<open>NameError\<close> before the pair is appended. \<open>link_name\<close> is not read.\<close>

definition add_softlink :: "JobScript \<Rightarrow> string \<Rightarrow> string option \<Rightarrow> error + (string \<times> JobScript)" where
  "add_softlink j target link_name =
     (if \<not> str_contains (sample_name j) (snd (os_path_split target))
      then Inl NameError
      else Inl NameError)"

text \<open>\<open>sge_submit_command\<close> (general.py 270-276).\<close>

definition sge_submit_command :: "JobScript \<Rightarrow> string" where
  "sge_submit_command j =
     (case wait_for j of
        None \<Rightarrow> ''qsub '' @ filename j
      | Some ws \<Rightarrow>
          if ws = [] then ''qsub '' @ filename j
          else ''qsub -hold_jid '' @ join_str '','' ws @ '' '' @ filename j)"

text \<open>\<open>add_temp_file\<close> (general.py 278-283).\<close>

definition add_temp_file :: "JobScript \<Rightarrow> string \<Rightarrow> bool \<Rightarrow> string \<times> JobScript" where
  "add_temp_file j fn copy =
     (temp_file_path j fn,
      if copy then j\<lparr>output_files_to_copy := output_files_to_copy j @ [fn]\<rparr> else j)"

text \<open>\<open>add_input_file\<close> (general.py 285-300); \<open>copy\<close> is \<open>None\<close>, \<open>True\<close> or
  \<open>False\<close>.\<close>

definition add_input_file :: "env \<Rightarrow> JobScript \<Rightarrow> string \<Rightarrow> bool option \<Rightarrow> string \<times> JobScript" where
  "add_input_file e j fn copy =
     (case copy of
        Some True \<Rightarrow>
          (temp_file_path j fn, j\<lparr>input_files_to_copy := input_files_to_copy j @ [fn]\<rparr>)
      | Some False \<Rightarrow> (realpath e fn, j)
      | None \<Rightarrow>
          if copy_input j
          then (temp_file_path j fn, j\<lparr>input_files_to_copy := input_files_to_copy j @ [fn]\<rparr>)
          else (realpath e fn, j))"

text \<open>\<open>copy_input_files\<close> (general.py 306-315).\<close>

definition copy_input_files :: "JobScript \<Rightarrow> fs \<Rightarrow> JobScript \<times> fs" where
  "copy_input_files j s =
     (if input_files_to_copy j \<noteq> []
      then (j\<lparr>temp_files_to_delete := temp_files_to_delete j @
                map (\<lambda>x. os_path_join (tempdir j) (snd (os_path_split x))) (input_files_to_copy j)\<rparr>,
            append_file (filename j) (rsync_text (input_files_to_copy j) (tempdir j)) s)
      else (j, s))"

text \<open>\<open>write_end\<close> (general.py 317-323). The file removed at the end is the one
  named \<open>self.jobname\<close>.\<close>

definition write_end :: "env \<Rightarrow> JobScript \<Rightarrow> fs \<Rightarrow> (error + JobScript) \<times> fs" where
  "write_end e j s =
     (let s1 = copy_output_files e j s;
          (j2, s2) = delete_temp_files e j s1;
          s3 = delete_tempdir e j2 s2
      in case make_softlinks j2 s3 of
           (Inl x, s4) \<Rightarrow> (Inl x, s4)
         | (Inr _, s4) \<Rightarrow>
             if delete_sh j2
             then (case os_remove (jobname j2) s4 of
                     (Inl x, s5) \<Rightarrow> (Inl x, s5)
                   | (Inr _, s5) \<Rightarrow> (Inr j2, s5))
             else (Inr j2, s4))"

section \<open>The RNA-seq pipeline\<close>

record pipeline_args =
  p_r1_fastqs :: "string list"
  p_r2_fastqs :: "string list"
  p_outdir :: string
  p_sample_name :: string
  p_linkdir :: "string option"
  p_webpath_file :: "string option"
  p_tempdir :: "string option"
  p_queue :: "string option"
  p_conda_env :: "string option"
  p_modules :: "string option"

text \<open>\<open>open(webpath_file)\<close> and \<open>readline().strip()\<close> at the head of
  \<open>pipeline\<close> (rnaseq.py 598-599): the default \<open>None\<close> is not a path, a missing
  file cannot be opened.\<close>

definition is_space :: "char \<Rightarrow> bool" where
  "is_space c = (c \<in> set [CHR '' '', CHR 0x09, CHR 0x0A, CHR 0x0B, CHR 0x0C, CHR 0x0D])"

definition py_strip :: "string \<Rightarrow> string" where
  "py_strip t = rev (dropWhile is_space (rev (dropWhile is_space t)))"

definition open_webpath :: "string option \<Rightarrow> fs \<Rightarrow> error + string" where
  "open_webpath w s =
     (case w of
        None \<Rightarrow> Inl TypeError
      | Some p \<Rightarrow>
          (case files s p of
             None \<Rightarrow> Inl IOError
           | Some txt \<Rightarrow> Inr (py_strip (takeWhile (\<lambda>c. c \<noteq> CHR 0x0A) txt))))"

text \<open>\<open>pipeline\<close> (rnaseq.py 449-1217) up to its first unconditional exception.
  After the first job is built and its fastqs are registered, line 626 reads
  \<open>combined_r1\<close> as an argument of the call whose result is assigned to
  \<open>combined_r1\<close>: the name is a local of \<open>pipeline\<close> that has no value yet, which is
  an \<open>UnboundLocalError\<close>. Nothing after line 626 runs.\<close>

definition pipeline :: "env \<Rightarrow> pipeline_args \<Rightarrow> fs \<Rightarrow> (error + string) \<times> fs" where
  "pipeline e a s =
     (case open_webpath (p_webpath_file a) s of
        Inl x \<Rightarrow> (Inl x, s)
      | Inr webpath \<Rightarrow>
          (case JobScript_init e
                  ((init_defaults (p_sample_name a) ''alignment''
                      (os_path_join (p_outdir a) ''alignment'') (PyInt 8) (PyInt 32))
                   \<lparr>arg_linkdir := p_linkdir a, arg_webpath := Some webpath,
                    arg_tempdir := p_tempdir a, arg_queue := p_queue a,
                    arg_conda_env := p_conda_env a, arg_modules := p_modules a\<rparr>) s of
             (Inl x, s1) \<Rightarrow> (Inl x, s1)
           | (Inr job, s1) \<Rightarrow>
               (let job1 = fold (\<lambda>fq j. snd (add_input_file e j fq None))
                             (p_r1_fastqs a @ p_r2_fastqs a) job
                in (Inl UnboundLocalError, s1))))"

text \<open>The end of every stage of \<open>pipeline\<close> (rnaseq.py 642-643 and eleven more
  places): \<open>job.write_end()\<close>, then \<open>submit_commands.append(job.sge_submit_comand())\<close>.
  \<open>JobScript\<close> and \<open>RNAJobScript\<close> define \<open>sge_submit_command\<close> and no
  \<open>sge_submit_comand\<close>: the attribute lookup raises.\<close>

definition stage_end :: "env \<Rightarrow> JobScript \<Rightarrow> string list \<Rightarrow> fs \<Rightarrow> (error + string list) \<times> fs" where
  "stage_end e job submit_commands s =
     (case write_end e job s of
        (Inl x, s') \<Rightarrow> (Inl x, s')
      | (Inr _, s') \<Rightarrow> (Inl AttributeError, s'))"

text \<open>The submission block of \<open>pipeline\<close> (rnaseq.py 1199-1217). The file is opened
  with mode \<open>w\<close> and gets the shebang. The loop pops from \<open>job_holds\<close>, which no line of
  \<open>pipeline\<close> or of the module binds: the first \<open>popitem\<close> raises \<open>NameError\<close>, the
  bare \<open>except\<close> catches it and breaks. \<open>submit_commands\<close> is not read.\<close>

definition submission_block :: "string \<Rightarrow> string list \<Rightarrow> fs \<Rightarrow> string \<times> fs" where
  "submission_block od submit_commands s =
     (let submit_fn = os_path_join (os_path_join od ''sh'') ''submit.sh''
      in (submit_fn, write_file submit_fn (''#!/bin/bash'' @ nl @ nl) s))"

section \<open>What the checks of the constructor and the blocks of finalization amount to\<close>




text \<open>The three blocks of finalization, each with the condition under which it is
  written.\<close>

definition copy_block :: "env \<Rightarrow> JobScript \<Rightarrow> string" where
  "copy_block e j =
     (if output_files_to_copy j \<noteq> [] \<and> realpath e (tempdir j) \<noteq> realpath e (outdir j)
      then rsync_text (output_files_to_copy j) (outdir j)
      else [])"

definition delete_block :: "env \<Rightarrow> JobScript \<Rightarrow> string" where
  "delete_block e j =
     (if temp_files_to_delete j = [] then []
      else if realpath e (tempdir j) = realpath e (outdir j)
      then rm_text (filter (\<lambda>x. x \<notin> set (output_files_to_copy j)) (temp_files_to_delete j))
      else rm_text (temp_files_to_delete j))"

definition tempdir_block :: "env \<Rightarrow> JobScript \<Rightarrow> string" where
  "tempdir_block e j =
     (if tempdir j \<noteq> [] \<and> realpath e (tempdir j) \<noteq> realpath e (outdir j)
      then ''rm -r '' @ tempdir j @ nl
      else [])"

definition file_text :: "fs \<Rightarrow> string \<Rightarrow> string" where
  "file_text s p = (case files s p of None \<Rightarrow> [] | Some t \<Rightarrow> t)"

section \<open>A sample run\<close>

text \<open>An environment without symbolic links, an empty file system, and the first
  job of the RNA-seq pipeline for sample \<open>s1\<close> with a link directory and a temporary
  directory. \<open>float_fmt\<close> of the sample environment is exact where \<open>threads\<close>
  divides \<open>memory\<close>.\<close>

definition no_files :: fs where
  "no_files = \<lparr>files = Map.empty, dirs = {}\<rparr>"

definition demo_env :: env where
  "demo_env =
     \<lparr>realpath = (\<lambda>p. p), git_info = ''c0ffee'', tmp_name = ''/tmp/tmpab12cd'',
      float_fmt = (\<lambda>m t. str_int (m div t) @ ''.0'')\<rparr>"

definition demo_args :: init_args where
  "demo_args =
     (init_defaults ''s1'' ''alignment'' ''/proj/alignment'' (PyInt 8) (PyInt 32))
       \<lparr>arg_linkdir := Some ''/links'', arg_tempdir := Some ''/scratch''\<rparr>"

definition demo_job :: JobScript where
  "demo_job =
     \<lparr>sample_name = ''s1'', job_suffix = ''alignment'', jobname = ''s1_alignment'',
      outdir = ''/proj/alignment'', tempdir = ''/scratch/s1_alignment'',
      threads = 8, memory = 32, linkdir = ''/links'', queue = None,
      conda_env = None, modules = None, out = ''/proj/logs/s1_alignment.out'',
      err = ''/proj/logs/s1_alignment.err'', wait_for = None,
      copy_input = False, input_files_to_copy = [],
      output_files_to_copy = [], temp_files_to_delete = [],
      softlinks = [], delete_sh = False,
      links_tracklines = ''/proj/alignment/links_tracklines.txt'',
      filename = ''/proj/sh/s1_alignment.sh''\<rparr>"

definition demo_header :: string where
  "demo_header =
     ''#!/bin/bash'' @ nl @ nl @
     ''#$ -N s1_alignment'' @ nl @
     ''#$ -l h_vmem=4.0'' @ nl @
     ''#$ -pe smp 8'' @ nl @
     ''#$ -S /bin/bash'' @ nl @
     ''#$ -o /proj/logs/s1_alignment.out'' @ nl @
     ''#$ -e /proj/logs/s1_alignment.err'' @ nl @ nl @
     ''# Git repository version:'' @ nl @ ''# c0ffee'' @ nl @ nl @
     ''mkdir -p /scratch/s1_alignment'' @ nl @
     ''cd /scratch/s1_alignment'' @ nl @ nl"

definition demo_fs :: fs where
  "demo_fs =
     \<lparr>files = [''/proj/sh/s1_alignment.sh'' \<mapsto> demo_header],
      dirs = {''/proj/sh'', ''/proj/logs'', ''/links'', ''/proj/alignment''}\<rparr>"

text \<open>A file system on which the script of the sample job was written by an earlier
  run.\<close>

definition old_fs :: fs where
  "old_fs =
     \<lparr>files = [''/proj/sh/s1_alignment.sh'' \<mapsto> ''submitted''],
      dirs = {''/proj/sh'', ''/proj/logs'', ''/links'', ''/proj/alignment''}\<rparr>"

definition demo_pipeline_args :: pipeline_args where
  "demo_pipeline_args =
     \<lparr>p_r1_fastqs = [''/data/s1_R1.fastq.gz''], p_r2_fastqs = [''/data/s1_R2.fastq.gz''],
      p_outdir = ''/proj'', p_sample_name = ''s1'', p_linkdir = Some ''/links'',
      p_webpath_file = Some ''/proj/webpath.txt'', p_tempdir = Some ''/scratch'',
      p_queue = None, p_conda_env = None, p_modules = None\<rparr>"

definition web_fs :: fs where
  "web_fs = \<lparr>files = [''/proj/webpath.txt'' \<mapsto> ''http://host/links''], dirs = {''/proj''}\<rparr>"

section \<open>Facts about the file system and the sample run\<close>

lemmas path_defs = os_path_split_def os_path_join_def is_slash_def

lemmas fs_defs = make_dir_def os_makedirs_def path_exists_def append_file_def write_file_def
  float_overflows_def

lemma demo_init: "JobScript_init demo_env demo_args no_files = (Inr demo_job, demo_fs)"
  by (simp add: JobScript_init_def demo_args_def init_defaults_def no_files_def demo_env_def
        new_job_def set_filename_def write_header_def header_tail_def header_queue_def
        header_modules_def header_conda_def header_tempdir_def demo_job_def demo_fs_def
        demo_header_def str_int_def Let_def path_defs fs_defs insert_commute)

lemma old_init:
  "JobScript_init demo_env demo_args old_fs =
     (Inr (demo_job\<lparr>filename := ''/tmp/tmpab12cd'', delete_sh := True\<rparr>),
      old_fs\<lparr>files := (files old_fs)(''/tmp/tmpab12cd'' \<mapsto> demo_header)\<rparr>)"
  by (simp add: JobScript_init_def demo_args_def init_defaults_def old_fs_def demo_env_def
        new_job_def set_filename_def write_header_def header_tail_def header_queue_def
        header_modules_def header_conda_def header_tempdir_def demo_job_def
        demo_header_def str_int_def Let_def path_defs fs_defs)

lemma demo_env_realpath: "realpath demo_env p = p"
  by (simp add: demo_env_def)

lemma file_text_append:
  "file_text (append_file p t s) p = file_text s p @ t"
  by (simp add: file_text_def append_file_def split: option.splits)

lemma files_append_file: "files (append_file p t s) p = Some (file_text s p @ t)"
  by (simp add: append_file_def file_text_def)

lemma files_os_remove_other: "p \<noteq> q \<Longrightarrow> files (snd (os_remove q s)) p = files s p"
  by (simp add: os_remove_def split: option.splits)

lemma make_dir_files: "files (snd (make_dir d s)) = files s"
  by (auto simp: make_dir_def os_makedirs_def split: option.splits)

lemma make_dir_Some_eq: "\<exists>s'. make_dir (Some p) s = (Inr (), s')"
  by (auto simp: make_dir_def os_makedirs_def)

lemma make_dir_None: "make_dir None s = (Inl TypeError, s)"
  by (auto simp: make_dir_def os_makedirs_def)

section \<open>Finalization\<close>

lemma file_text_copy_output_files:
  "file_text (copy_output_files e j s) (filename j) = file_text s (filename j) @ copy_block e j"
  by (simp add: copy_output_files_def copy_block_def file_text_append)

lemma delete_temp_files_fields:
  "delete_temp_files e j s = (j', s') \<Longrightarrow>
     filename j' = filename j \<and> tempdir j' = tempdir j \<and> outdir j' = outdir j \<and>
     softlinks j' = softlinks j \<and> delete_sh j' = delete_sh j \<and> jobname j' = jobname j"
  by (auto simp: delete_temp_files_def Let_def split: if_splits)

lemma file_text_delete_temp_files:
  "delete_temp_files e j s = (j', s') \<Longrightarrow>
     file_text s' (filename j) = file_text s (filename j) @ delete_block e j"
  by (auto simp: delete_temp_files_def delete_block_def Let_def file_text_append split: if_splits)

lemma file_text_delete_tempdir:
  "file_text (delete_tempdir e j s) (filename j) = file_text s (filename j) @ tempdir_block e j"
  by (simp add: delete_tempdir_def tempdir_block_def file_text_append)

lemma tempdir_block_cong:
  "tempdir j' = tempdir j \<Longrightarrow> outdir j' = outdir j \<Longrightarrow> tempdir_block e j' = tempdir_block e j"
  by (simp add: tempdir_block_def)

lemma make_softlinks_none:
  "softlinks j = [] \<Longrightarrow> make_softlinks j s = (Inr (), append_file (filename j) [] s)"
  by (simp add: make_softlinks_def)

lemma write_end_text:
  assumes "softlinks j = []" and "filename j \<noteq> jobname j"
  shows "files (snd (write_end e j s)) (filename j) =
           Some (file_text s (filename j) @ copy_block e j @ delete_block e j @ tempdir_block e j)"
proof -
  obtain j2 s2 where d: "delete_temp_files e j (copy_output_files e j s) = (j2, s2)"
    by (cases "delete_temp_files e j (copy_output_files e j s)")
  note f = delete_temp_files_fields[OF d]
  have t2: "file_text s2 (filename j) = file_text s (filename j) @ copy_block e j @ delete_block e j"
    using file_text_delete_temp_files[OF d] by (simp add: file_text_copy_output_files)
  have t3: "file_text (delete_tempdir e j2 s2) (filename j) =
              file_text s (filename j) @ copy_block e j @ delete_block e j @ tempdir_block e j"
    using file_text_delete_tempdir[of e j2 s2] f t2 tempdir_block_cong[of j2 j e] by simp
  have m: "make_softlinks j2 (delete_tempdir e j2 s2) =
             (Inr (), append_file (filename j) [] (delete_tempdir e j2 s2))"
    using make_softlinks_none[of j2] f assms(1) by simp
  have t4: "files (append_file (filename j) [] (delete_tempdir e j2 s2)) (filename j) =
              Some (file_text s (filename j) @ copy_block e j @ delete_block e j @ tempdir_block e j)"
    by (simp add: files_append_file t3)
  show ?thesis
  proof (cases "delete_sh j2")
    case False
    then show ?thesis by (simp add: write_end_def Let_def d m t4)
  next
    case True
    obtain r s5 where o: "os_remove (jobname j) (append_file (filename j) [] (delete_tempdir e j2 s2)) = (r, s5)"
      by (cases "os_remove (jobname j) (append_file (filename j) [] (delete_tempdir e j2 s2))")
    have "files s5 (filename j) = files (append_file (filename j) [] (delete_tempdir e j2 s2)) (filename j)"
      using files_os_remove_other[OF assms(2), of "append_file (filename j) [] (delete_tempdir e j2 s2)"]
      by (simp add: o)
    then show ?thesis
      using True f by (cases r) (simp_all add: write_end_def Let_def d m t4 o)
  qed
qed

text \<open>C2, as the code has it. \<open>write_end\<close> appends the terminal blocks in one fixed order,
  each at most once and each under its own condition: the batched copy of the declared
  outputs when there is at least one and the temporary directory differs from the output
  directory; then the removal of \<open>temp_files_to_delete\<close> when that list is not empty;
  then \<open>rm -r\<close> of the temporary directory when it differs from the output directory.
  With no recorded softlink nothing more is written. The script is the text it held
  before, followed by these three blocks. (The second assumption only excludes a script
  whose own path is the job name, the path that \<open>write_end\<close> removes for a redirected
  job.)\<close>

theorem write_end_blocks:
  assumes "softlinks j = []" and "filename j \<noteq> jobname j"
  shows "files (snd (write_end e j s)) (filename j) =
           Some (file_text s (filename j) @ copy_block e j @ delete_block e j @ tempdir_block e j)"
  using assms by (rule write_end_text)

text \<open>The theorem at a job with a temporary directory of its own, one declared output
  and one temporary: copy block, delete block naming the temporary, \<open>rm -r\<close> of the
  temporary directory, in this order.\<close>

theorem write_end_blocks_witness:
  "softlinks (demo_job\<lparr>output_files_to_copy := [''Aligned.out.bam''],
                        temp_files_to_delete := [''Aligned.out.sam'']\<rparr>) = []
   \<and> filename demo_job \<noteq> jobname demo_job
   \<and> files (snd (write_end demo_env
                (demo_job\<lparr>output_files_to_copy := [''Aligned.out.bam''],
                           temp_files_to_delete := [''Aligned.out.sam'']\<rparr>) demo_fs))
         ''/proj/sh/s1_alignment.sh'' =
       Some (demo_header @ rsync_text [''Aligned.out.bam''] ''/proj/alignment'' @
             rm_text [''Aligned.out.sam''] @ ''rm -r /scratch/s1_alignment'' @ nl)"
  using write_end_blocks
          [of "demo_job\<lparr>output_files_to_copy := [''Aligned.out.bam''],
                         temp_files_to_delete := [''Aligned.out.sam'']\<rparr>" demo_env demo_fs]
  by (simp add: demo_job_def demo_fs_def file_text_def copy_block_def delete_block_def
        tempdir_block_def demo_env_realpath)

text \<open>C2 as stated fails: a job with a temporary directory of its own and one temporary
  file, but no declared output, gets no copy block at all; its script ends with the
  delete block and the removal of the temporary directory.\<close>

theorem write_end_no_copy_block_counterexample:
  "files (snd (write_end demo_env (demo_job\<lparr>temp_files_to_delete := [''Aligned.out.sam'']\<rparr>) demo_fs))
         ''/proj/sh/s1_alignment.sh'' =
       Some (demo_header @ rm_text [''Aligned.out.sam''] @ ''rm -r /scratch/s1_alignment'' @ nl)
   \<and> \<not> str_contains ''rsync''
         (demo_header @ rm_text [''Aligned.out.sam''] @ ''rm -r /scratch/s1_alignment'' @ nl)"
proof
  show "files (snd (write_end demo_env (demo_job\<lparr>temp_files_to_delete := [''Aligned.out.sam'']\<rparr>) demo_fs))
         ''/proj/sh/s1_alignment.sh'' =
       Some (demo_header @ rm_text [''Aligned.out.sam''] @ ''rm -r /scratch/s1_alignment'' @ nl)"
    using write_end_text[of "demo_job\<lparr>temp_files_to_delete := [''Aligned.out.sam'']\<rparr>" demo_env demo_fs]
    by (simp add: demo_job_def demo_fs_def file_text_def copy_block_def delete_block_def
          tempdir_block_def demo_env_realpath)
  show "\<not> str_contains ''rsync''
         (demo_header @ rm_text [''Aligned.out.sam''] @ ''rm -r /scratch/s1_alignment'' @ nl)"
    by (simp add: demo_header_def rm_text_def nl_def tab_def bslash_def)
qed

text \<open>C3. When the temporary directory and the output directory are the same place
  (their real paths agree, as they do when \<open>tempdir\<close> is \<open>outdir\<close>), the paths
  named by the \<open>rm\<close> command of \<open>_delete_temp_files\<close> are the temporaries that are
  not declared outputs: no path that is both a temporary and a published output is among
  them. With no temporary at all, no command is written.\<close>

theorem delete_temp_files_spares_outputs:
  assumes "realpath e (tempdir j) = realpath e (outdir j)"
    and "delete_temp_files e j s = (j', s')"
  shows "s' = (if temp_files_to_delete j = [] then s
               else append_file (filename j) (rm_text (temp_files_to_delete j')) s)
         \<and> set (temp_files_to_delete j') = set (temp_files_to_delete j) - set (output_files_to_copy j)"
  using assms by (auto simp: delete_temp_files_def Let_def split: if_splits)

text \<open>The theorem at a job that works in its output directory, with two temporaries of
  which one is also a declared output: the command names the other one only.\<close>

theorem delete_temp_files_spares_outputs_witness:
  "realpath demo_env (tempdir (demo_job\<lparr>tempdir := ''/proj/alignment'',
       temp_files_to_delete := [''Aligned.out.sam'', ''Aligned.out.bam''],
       output_files_to_copy := [''Aligned.out.bam'']\<rparr>)) = realpath demo_env ''/proj/alignment''
   \<and> snd (delete_temp_files demo_env (demo_job\<lparr>tempdir := ''/proj/alignment'',
       temp_files_to_delete := [''Aligned.out.sam'', ''Aligned.out.bam''],
       output_files_to_copy := [''Aligned.out.bam'']\<rparr>) demo_fs)
     = append_file ''/proj/sh/s1_alignment.sh'' (rm_text [''Aligned.out.sam'']) demo_fs"
  using delete_temp_files_spares_outputs
          [of demo_env "demo_job\<lparr>tempdir := ''/proj/alignment'',
                 temp_files_to_delete := [''Aligned.out.sam'', ''Aligned.out.bam''],
                 output_files_to_copy := [''Aligned.out.bam'']\<rparr>" demo_fs
              "fst (delete_temp_files demo_env (demo_job\<lparr>tempdir := ''/proj/alignment'',
                 temp_files_to_delete := [''Aligned.out.sam'', ''Aligned.out.bam''],
                 output_files_to_copy := [''Aligned.out.bam'']\<rparr>) demo_fs)"
              "snd (delete_temp_files demo_env (demo_job\<lparr>tempdir := ''/proj/alignment'',
                 temp_files_to_delete := [''Aligned.out.sam'', ''Aligned.out.bam''],
                 output_files_to_copy := [''Aligned.out.bam'']\<rparr>) demo_fs)"]
  by (simp add: demo_job_def demo_env_realpath delete_temp_files_def)

text \<open>C4. \<open>add_temp_file\<close> leaves \<open>temp_files_to_delete\<close> as it was, for every
  path and either value of \<open>copy\<close>: the path is not registered as a temporary, against
  the docstring of the method.\<close>

theorem add_temp_file_registers_no_temp:
  "temp_files_to_delete (snd (add_temp_file j fn c)) = temp_files_to_delete j"
  by (simp add: add_temp_file_def)

text \<open>C8. The sample job built where its script already exists is redirected to the
  scratch file and marked \<open>delete_sh\<close>. \<open>write_end\<close> then removes the path
  \<open>s1_alignment\<close> (the job name), which is no file: it ends with \<open>OSError\<close>, and the
  scratch script is still there with the finalize block in it. The script written by the
  earlier run keeps its text.\<close>

theorem scratch_script_survives:
  "fst (JobScript_init demo_env demo_args old_fs) =
     Inr (demo_job\<lparr>filename := ''/tmp/tmpab12cd'', delete_sh := True\<rparr>)
   \<and> fst (write_end demo_env (demo_job\<lparr>filename := ''/tmp/tmpab12cd'', delete_sh := True\<rparr>)
            (snd (JobScript_init demo_env demo_args old_fs))) = Inl OSError
   \<and> files (snd (write_end demo_env (demo_job\<lparr>filename := ''/tmp/tmpab12cd'', delete_sh := True\<rparr>)
            (snd (JobScript_init demo_env demo_args old_fs)))) ''/tmp/tmpab12cd'' =
       Some (demo_header @ ''rm -r /scratch/s1_alignment'' @ nl)
   \<and> files (snd (write_end demo_env (demo_job\<lparr>filename := ''/tmp/tmpab12cd'', delete_sh := True\<rparr>)
            (snd (JobScript_init demo_env demo_args old_fs)))) ''/proj/sh/s1_alignment.sh'' =
       Some ''submitted''"
  unfolding old_init
  by (simp add: write_end_def copy_output_files_def delete_temp_files_def
        delete_tempdir_def make_softlinks_def os_remove_def append_file_def demo_job_def
        demo_env_realpath old_fs_def Let_def)

section \<open>Staging of inputs\<close>

text \<open>C6, as the code has it. For a path registered by \<open>add_input_file\<close> with
  \<open>copy=True\<close>, the returned path is the temporary directory joined with the base name
  of the path; the batched copy command of \<open>copy_input_files\<close> names the registered
  paths as its sources and the temporary directory as its one destination; and the
  returned path is then among \<open>temp_files_to_delete\<close>.\<close>

theorem staged_input_copy:
  assumes "add_input_file e j fn (Some True) = (p, j1)"
    and "copy_input_files j1 s = (j2, s2)"
  shows "p = os_path_join (tempdir j) (snd (os_path_split fn))
         \<and> fn \<in> set (input_files_to_copy j1)
         \<and> s2 = append_file (filename j) (rsync_text (input_files_to_copy j1) (tempdir j)) s
         \<and> p \<in> set (temp_files_to_delete j2)"
  using assms
  by (auto simp: add_input_file_def copy_input_files_def temp_file_path_def split: if_splits)

text \<open>The theorem at the sample job and one fastq file.\<close>

theorem staged_input_copy_witness:
  "add_input_file demo_env demo_job ''/data/s1_R1.fastq.gz'' (Some True) =
     (''/scratch/s1_alignment/s1_R1.fastq.gz'', demo_job\<lparr>input_files_to_copy := [''/data/s1_R1.fastq.gz'']\<rparr>)
   \<and> copy_input_files (demo_job\<lparr>input_files_to_copy := [''/data/s1_R1.fastq.gz'']\<rparr>) demo_fs =
     (demo_job\<lparr>input_files_to_copy := [''/data/s1_R1.fastq.gz''],
               temp_files_to_delete := [''/scratch/s1_alignment/s1_R1.fastq.gz'']\<rparr>,
      append_file ''/proj/sh/s1_alignment.sh''
        (rsync_text [''/data/s1_R1.fastq.gz''] ''/scratch/s1_alignment'') demo_fs)"
  using staged_input_copy
          [of demo_env demo_job "''/data/s1_R1.fastq.gz''" "''/scratch/s1_alignment/s1_R1.fastq.gz''"
              "demo_job\<lparr>input_files_to_copy := [''/data/s1_R1.fastq.gz'']\<rparr>" demo_fs
              "demo_job\<lparr>input_files_to_copy := [''/data/s1_R1.fastq.gz''],
                         temp_files_to_delete := [''/scratch/s1_alignment/s1_R1.fastq.gz'']\<rparr>"
              "append_file ''/proj/sh/s1_alignment.sh''
                 (rsync_text [''/data/s1_R1.fastq.gz''] ''/scratch/s1_alignment'') demo_fs"]
  by (simp add: add_input_file_def copy_input_files_def temp_file_path_def demo_job_def path_defs)

text \<open>C6 as stated fails: for the sample job and \<open>/data/s1_R1.fastq.gz\<close> the returned
  path is \<open>/scratch/s1_alignment/s1_R1.fastq.gz\<close>, and this text occurs nowhere in the
  copy command, whose destination is the directory \<open>/scratch/s1_alignment\<close>.\<close>

theorem staged_path_not_destination_counterexample:
  "fst (add_input_file demo_env demo_job ''/data/s1_R1.fastq.gz'' (Some True)) =
     ''/scratch/s1_alignment/s1_R1.fastq.gz''
   \<and> snd (copy_input_files (snd (add_input_file demo_env demo_job ''/data/s1_R1.fastq.gz'' (Some True))) demo_fs) =
     append_file ''/proj/sh/s1_alignment.sh''
       (rsync_text [''/data/s1_R1.fastq.gz''] ''/scratch/s1_alignment'') demo_fs
   \<and> \<not> str_contains ''/scratch/s1_alignment/s1_R1.fastq.gz''
         (rsync_text [''/data/s1_R1.fastq.gz''] ''/scratch/s1_alignment'')"
  by (simp add: add_input_file_def copy_input_files_def temp_file_path_def demo_job_def path_defs
        rsync_text_def nl_def tab_def bslash_def)

section \<open>Softlinks\<close>

text \<open>C9. Every call of \<open>add_softlink\<close> ends with \<open>NameError\<close>, whether or not the
  base name of the target contains the sample name: no link name is derived, no pair is
  recorded and no path is returned.\<close>

theorem add_softlink_raises:
  "add_softlink j target link_name = Inl NameError"
  by (simp add: add_softlink_def)

section \<open>Construction\<close>









text \<open>C10. With the link directory left at \<open>None\<close>, construction always ends with an
  exception that is not the swallowed \<open>OSError\<close>: the \<open>TypeError\<close> of
  \<open>os.makedirs(None)\<close> (or, met earlier, the \<open>AssertionError\<close> of a \<open>threads\<close> or
  \<open>memory\<close> that is not an \<open>int\<close>). No file has been written by then, so the header
  has not been either.\<close>

theorem init_without_linkdir_raises:
  assumes "arg_linkdir a = None"
  shows "fst (JobScript_init e a s) =
           Inl (if arg_threads a = PyOther \<or> arg_memory a = PyOther then AssertionError else TypeError)
         \<and> files (snd (JobScript_init e a s)) = files s"
proof -
  obtain s1 where m1: "make_dir (Some (arg_outdir a)) s = (Inr (), s1)"
    using make_dir_Some_eq by blast
  have f1: "files s1 = files s"
    using make_dir_files[of "Some (arg_outdir a)" s] by (simp add: m1)
  show ?thesis
    using assms f1
    by (cases "arg_threads a"; cases "arg_memory a")
       (simp_all add: JobScript_init_def m1 make_dir_None)
qed

text \<open>The theorem at the arguments of the sample job with every optional argument at
  its default.\<close>

theorem init_without_linkdir_raises_witness:
  "arg_linkdir (init_defaults ''s1'' ''alignment'' ''/proj/alignment'' (PyInt 8) (PyInt 32)) = None
   \<and> fst (JobScript_init demo_env
            (init_defaults ''s1'' ''alignment'' ''/proj/alignment'' (PyInt 8) (PyInt 32)) no_files)
       = Inl TypeError
   \<and> files (snd (JobScript_init demo_env
            (init_defaults ''s1'' ''alignment'' ''/proj/alignment'' (PyInt 8) (PyInt 32)) no_files))
       = files no_files"
  using init_without_linkdir_raises
          [of "init_defaults ''s1'' ''alignment'' ''/proj/alignment'' (PyInt 8) (PyInt 32)"
              demo_env no_files]
  by (simp add: init_defaults_def)

section \<open>The submission script\<close>

text \<open>C1. A run of \<open>pipeline\<close> on the sample arguments ends with
  \<open>UnboundLocalError\<close> in its first stage and writes no submission script. The end of
  a stage raises \<open>AttributeError\<close> where it should record the submit command, although
  \<open>sge_submit_command\<close> itself gives the expected line with its \<open>-hold_jid\<close> clause.
  And the submission block, given the three commands of a linear chain, writes the shebang
  and none of them.\<close>

theorem pipeline_writes_no_submit_lines:
  "fst (pipeline demo_env demo_pipeline_args web_fs) = Inl UnboundLocalError
   \<and> files (snd (pipeline demo_env demo_pipeline_args web_fs)) ''/proj/sh/submit.sh'' = None
   \<and> fst (stage_end demo_env demo_job [] demo_fs) = Inl AttributeError
   \<and> sge_submit_command (demo_job\<lparr>wait_for := Some [''s1_alignment''],
                                   filename := ''/proj/sh/s1_sort.sh''\<rparr>)
       = ''qsub -hold_jid s1_alignment /proj/sh/s1_sort.sh''
   \<and> submission_block ''/proj''
        [''qsub /proj/sh/s1_alignment.sh'',
         ''qsub -hold_jid s1_alignment /proj/sh/s1_sort.sh'',
         ''qsub -hold_jid s1_sort /proj/sh/s1_count.sh''] demo_fs
       = (''/proj/sh/submit.sh'',
          write_file ''/proj/sh/submit.sh'' (''#!/bin/bash'' @ nl @ nl) demo_fs)"
  by (simp add: pipeline_def open_webpath_def web_fs_def demo_pipeline_args_def
        JobScript_init_def init_defaults_def demo_env_def
        new_job_def set_filename_def write_header_def Let_def path_defs fs_defs
        stage_end_def write_end_def copy_output_files_def delete_temp_files_def
        delete_tempdir_def make_softlinks_def demo_job_def sge_submit_command_def
        submission_block_def)

end
